theory Spec2Isabelle
  imports
    Main
    "HOL-Library.Sublist"
    "HOL-Library.FSet"
    "HOL-Library.Char_ord"
    "HOL-Library.List_Lexorder"
begin

section \<open>Python strings\<close>

text \<open>
  A Python \<open>str\<close> is modelled as a \<^typ>\<open>string\<close>. The characters are read as ASCII code
  points: \<open>str.lower\<close> maps \<open>A..Z\<close> to \<open>a..z\<close> and leaves every other character alone, and
  the whitespace characters of \<open>str.strip\<close> and of the regular expression class \<open>\s\<close> are
  the ASCII ones (\<open>0x09..0x0D\<close>, \<open>0x1C..0x1F\<close> and the blank).
\<close>

definition lower_char :: "char \<Rightarrow> char" where
  "lower_char c =
     (case map_of (zip ''ABCDEFGHIJKLMNOPQRSTUVWXYZ'' ''abcdefghijklmnopqrstuvwxyz'') c of
        None \<Rightarrow> c
      | Some d \<Rightarrow> d)"

definition lower :: "string \<Rightarrow> string" where
  "lower s = map lower_char s"

definition is_space :: "char \<Rightarrow> bool" where
  "is_space c \<longleftrightarrow>
     c \<in> set [CHR 0x09, CHR 0x0A, CHR 0x0B, CHR 0x0C, CHR 0x0D,
               CHR 0x1C, CHR 0x1D, CHR 0x1E, CHR 0x1F, CHR '' '']"

text \<open>\<open>s.strip()\<close>: whitespace removed at both ends.\<close>

definition strip :: "string \<Rightarrow> string" where
  "strip s = rev (dropWhile is_space (rev (dropWhile is_space s)))"

text \<open>\<open>sub in s\<close> on strings is \<^term>\<open>sublist sub s\<close>: a contiguous occurrence.\<close>

text \<open>
  \<open>s.replace(old, new)\<close>: the occurrences of \<open>old\<close> are found from the left and do not
  overlap; an empty \<open>old\<close> matches before every character and at the end.
\<close>

function py_replace :: "string \<Rightarrow> string \<Rightarrow> string \<Rightarrow> string" where
  "py_replace old new [] = (if old = [] then new else [])"
| "py_replace old new (c # cs) =
     (if old = [] then new @ c # py_replace old new cs
      else if prefix old (c # cs) then new @ py_replace old new (drop (length old) (c # cs))
      else c # py_replace old new cs)"
  by pat_completeness auto
termination
  by (relation "measure (\<lambda>(old, new, s). length s)") auto

text \<open>\<open>sep.join(xs)\<close>.\<close>

fun join :: "string \<Rightarrow> string list \<Rightarrow> string" where
  "join sep [] = []"
| "join sep [x] = x"
| "join sep (x # y # ys) = x @ sep @ join sep (y # ys)"

text \<open>\<open>xs[:n]\<close>: a negative bound counts from the end.\<close>

definition py_take :: "int \<Rightarrow> 'a list \<Rightarrow> 'a list" where
  "py_take n xs = (if 0 \<le> n then take (nat n) xs else take (length xs - nat (- n)) xs)"

text \<open>\<open>str(n)\<close> for a length: the decimal digits.\<close>

definition digit_char :: "nat \<Rightarrow> char" where
  "digit_char d = ''0123456789'' ! d"

function str_of_nat :: "nat \<Rightarrow> string" where
  "str_of_nat n = (if n < 10 then [digit_char n] else str_of_nat (n div 10) @ [digit_char (n mod 10)])"
  by pat_completeness auto
termination
  by (relation "measure id") auto

declare str_of_nat.simps [simp del]

section \<open>Configuration\<close>

text \<open>
  The module-level settings read from the environment when the script is loaded.
  \<open>ALLOW_DOMAINS\<close> is a Python set; the code only asks whether it is empty and whether
  \<open>any\<close> of its elements satisfies a test, so its elements are kept in a list.
\<close>

record config =
  FEED_URLS :: "string list"
  ALLOW_DOMAINS :: "string list"
  INCLUDE_KEYWORDS :: "string list"
  EXCLUDE_KEYWORDS :: "string list"
  MAX_ITEMS :: int
  MAX_PER_FEED :: int
  MIN_ARTICLE_LENGTH :: int
  DRY_RUN :: bool
  GOOGLE_API_KEY :: string
  GEMINI_AVAILABLE :: bool
  SENDER_EMAIL :: string
  RECEIVER_EMAIL :: string
  APP_PASSWORD :: string
  PERSIST_SENT :: bool

definition DEFAULT_ALLOW_DOMAINS :: "string list" where
  "DEFAULT_ALLOW_DOMAINS =
     [''timesofindia.indiatimes.com'', ''thehindu.com'', ''hindustantimes.com'',
      ''indianexpress.com'', ''ndtv.com'', ''indiatoday.in'',
      ''economictimes.indiatimes.com'', ''news18.com'']"

section \<open>Exceptions\<close>

text \<open>
  What the code can catch: \<open>requests.exceptions.RequestException\<close> and every other
  \<open>Exception\<close>, each with its message.
\<close>

datatype exn = RequestException string | OtherException string

fun exn_str :: "exn \<Rightarrow> string" where
  "exn_str (RequestException m) = m"
| "exn_str (OtherException m) = m"

section \<open>Domain Matcher\<close>

text \<open>
  \<open>urlparse(url).netloc\<close> belongs to the standard library. It is a parameter of the
  model: a function from the URL to the network location, or to the exception it raises.
\<close>

type_synonym netloc_fn = "string \<Rightarrow> exn + string"

definition domain_of :: "netloc_fn \<Rightarrow> string \<Rightarrow> string" where
  "domain_of urlparse_netloc url =
     (case urlparse_netloc url of
        Inl e \<Rightarrow> []
      | Inr netloc \<Rightarrow> py_replace ''www.'' [] (lower netloc))"

text \<open>The test of \<open>passes_filters\<close> on the domain: \<open>any(allow in dom for allow in ALLOW_DOMAINS)\<close>.\<close>

definition domain_allowed :: "config \<Rightarrow> string \<Rightarrow> bool" where
  "domain_allowed cfg dm \<longleftrightarrow> list_ex (\<lambda>allow. sublist allow dm) (ALLOW_DOMAINS cfg)"

text \<open>
  A network-location function for the witnesses: a URL \<open>scheme://netloc/rest\<close> is cut after
  the first \<open>//\<close> and before the next \<open>/\<close>, \<open>?\<close> or \<open>#\<close>, as \<open>urlparse\<close> does on such URLs.
\<close>

fun after_slashes :: "string \<Rightarrow> string option" where
  "after_slashes (a # b # cs) =
     (if a = CHR ''/'' \<and> b = CHR ''/'' then Some cs else after_slashes (b # cs))"
| "after_slashes cs = None"

definition simple_netloc :: netloc_fn where
  "simple_netloc url =
     (case after_slashes url of
        None \<Rightarrow> Inr []
      | Some rest \<Rightarrow> Inr (takeWhile (\<lambda>c. c \<notin> set ''/?#'') rest))"

section \<open>Feed entries\<close>

text \<open>
  An entry of a parsed feed. Every attribute may be missing (\<open>getattr\<close> with a default);
  \<open>published_parsed\<close> and \<open>updated_parsed\<close> hold the time when \<open>datetime(*t[:6])\<close>
  succeeds and \<open>None\<close> when the attribute is missing or the construction raises. Times
  are points on the integer line.
\<close>

record entry =
  link :: "string option"
  title :: "string option"
  summary :: "string option"
  description :: "string option"
  published_parsed :: "int option"
  updated_parsed :: "int option"

text \<open>\<open>x or y\<close> on optional strings: the first operand when it is a non-empty string.\<close>

definition or_str :: "string option \<Rightarrow> string \<Rightarrow> string" where
  "or_str x y = (case x of None \<Rightarrow> y | Some s \<Rightarrow> if s = [] then y else s)"

definition or_opt :: "string option \<Rightarrow> string option \<Rightarrow> string option" where
  "or_opt x y = (case x of None \<Rightarrow> y | Some s \<Rightarrow> if s = [] then y else Some s)"

text \<open>\<open>getattr(entry, "link", "") or ""\<close>\<close>

definition entry_url :: "entry \<Rightarrow> string" where
  "entry_url e = or_str (link e) []"

section \<open>Filter Chain\<close>

text \<open>The loop over \<open>EXCLUDE_KEYWORDS\<close>: the first keyword that is non-empty and occurs.\<close>

fun first_exclude :: "string list \<Rightarrow> string \<Rightarrow> string option" where
  "first_exclude [] combined = None"
| "first_exclude (kw # kws) combined =
     (if kw \<noteq> [] \<and> sublist kw combined then Some kw else first_exclude kws combined)"

definition filter_title :: "entry \<Rightarrow> string" where
  "filter_title e = lower (or_str (title e) [])"

definition filter_summary :: "entry \<Rightarrow> string" where
  "filter_summary e = lower (or_str (summary e) (or_str (description e) []))"

definition combined_text :: "entry \<Rightarrow> string" where
  "combined_text e = filter_title e @ '' '' @ filter_summary e"

text \<open>
  \<open>len(extracted_text or "") if extracted_text else len(summary or "")\<close>: an extracted
  text that is \<open>None\<close> or empty gives the length of the lowercased feed summary.
\<close>

definition effective_len :: "entry \<Rightarrow> string option \<Rightarrow> nat" where
  "effective_len e extracted_text =
     (case extracted_text of
        None \<Rightarrow> length (filter_summary e)
      | Some t \<Rightarrow> if t = [] then length (filter_summary e) else length t)"

definition passes_filters :: "netloc_fn \<Rightarrow> config \<Rightarrow> entry \<Rightarrow> string option \<Rightarrow> bool \<times> string" where
  "passes_filters urlparse_netloc cfg e extracted_text =
     (let url = entry_url e;
          dm = domain_of urlparse_netloc url;
          combined = combined_text e
      in
        if ALLOW_DOMAINS cfg \<noteq> [] \<and> \<not> domain_allowed cfg dm
        then (False, ''domain_not_allowed:'' @ dm)
        else
          (case first_exclude (EXCLUDE_KEYWORDS cfg) combined of
             Some kw \<Rightarrow> (False, ''exclude_keyword:'' @ kw)
           | None \<Rightarrow>
               if INCLUDE_KEYWORDS cfg \<noteq> []
                  \<and> \<not> list_ex (\<lambda>kw. sublist kw combined) (INCLUDE_KEYWORDS cfg)
               then (False, ''include_keywords_not_matched'')
               else if int (effective_len e extracted_text) < MIN_ARTICLE_LENGTH cfg
               then (False, ''too_short(len='' @ str_of_nat (effective_len e extracted_text) @ '')'')
               else (True, ''ok'')))"

section \<open>Content Extractor\<close>

text \<open>
  The network and the HTML parser are outside the program. A response either makes
  \<open>raise_for_status\<close> raise an \<open>HTTPError\<close> (a \<open>RequestException\<close>) or is parsed; the parsed
  page gives the texts of the \<open>p\<close> elements inside the first \<open>article\<close> element, when the
  page has one, and the texts of all \<open>p\<close> elements of the document.
\<close>

record soup =
  article :: "string list option"
  paragraphs :: "string list"

record response =
  status_error :: "string option"
  parsed :: "exn + soup"

definition paragraph_text :: "soup \<Rightarrow> string" where
  "paragraph_text sp =
     (let paras = (case article sp of Some ps \<Rightarrow> ps | None \<Rightarrow> paragraphs sp)
      in join '' '' (map strip (filter (\<lambda>p. strip p \<noteq> []) paras)))"

text \<open>The body of the \<open>try\<close> block of \<open>fetch_page\<close>.\<close>

definition fetch_body :: "(string \<Rightarrow> exn + response) \<Rightarrow> config \<Rightarrow> string \<Rightarrow> exn + string option" where
  "fetch_body requests_get cfg url =
     (case requests_get url of
        Inl e \<Rightarrow> Inl e
      | Inr r \<Rightarrow>
          (case status_error r of
             Some m \<Rightarrow> Inl (RequestException m)
           | None \<Rightarrow>
               (case parsed r of
                  Inl e \<Rightarrow> Inl e
                | Inr sp \<Rightarrow>
                    (let text = paragraph_text sp
                     in if text = [] \<or> int (length text) < MIN_ARTICLE_LENGTH cfg
                        then Inr None
                        else Inr (Some (take 6000 text))))))"

definition fetch_page ::
  "(string \<Rightarrow> exn + response) \<Rightarrow> config \<Rightarrow> string \<Rightarrow> string option \<times> string option" where
  "fetch_page requests_get cfg url =
     (case fetch_body requests_get cfg url of
        Inr r \<Rightarrow> (r, None)
      | Inl (RequestException m) \<Rightarrow> (None, Some (''fetch_error: '' @ m))
      | Inl (OtherException m) \<Rightarrow> (None, Some (''extract_error: '' @ m)))"

section \<open>Summarizer\<close>

definition nl :: char where
  "nl = CHR 0x0A"

text \<open>\<open>re.sub(r'\s+', ' ', text)\<close>: every maximal run of whitespace becomes one blank.\<close>

function sub_ws :: "string \<Rightarrow> string" where
  "sub_ws [] = []"
| "sub_ws (c # cs) =
     (if is_space c then CHR '' '' # sub_ws (dropWhile is_space cs) else c # sub_ws cs)"
  by pat_completeness auto
termination
  by (relation "measure length") (auto simp: length_dropWhile_le less_Suc_eq_le)

text \<open>
  \<open>_SENTENCE_SPLIT_RE.split(text)\<close>: the text is cut at every run of whitespace that follows
  one of \<open>.\<close>, \<open>?\<close>, \<open>!\<close>, and the run is dropped. The first argument is the piece read so far.
\<close>

function sentence_split :: "string \<Rightarrow> string \<Rightarrow> string list" where
  "sentence_split cur [] = [cur]"
| "sentence_split cur (c # cs) =
     (if is_space c \<and> cur \<noteq> [] \<and> last cur \<in> set ''.?!''
      then cur # sentence_split [] (dropWhile is_space cs)
      else sentence_split (cur @ [c]) cs)"
  by pat_completeness auto
termination
  by (relation "measure (\<lambda>(cur, s). length s)") (auto simp: length_dropWhile_le less_Suc_eq_le)

text \<open>
  \<open>simple_extractive_summary(text, max_sentences)\<close>; the text is a string (the source also
  takes \<open>None\<close> for the empty string).
\<close>

definition simple_extractive_summary :: "string \<Rightarrow> int \<Rightarrow> string" where
  "simple_extractive_summary text0 max_sentences =
     (let text = strip (sub_ws text0) in
      if text = [] then []
      else
        (let sentences = sentence_split [] text;
             chosen = py_take max_sentences sentences;
             headline = (case chosen of [] \<Rightarrow> take 100 text @ ''...'' | h # _ \<Rightarrow> h);
             bullets = (if length chosen > 1 then drop 1 chosen else py_take max_sentences chosen);
             bullets_txt =
               (if bullets \<noteq> [] then join [nl] (map (\<lambda>b. ''- '' @ strip b) bullets) else [])
         in strip headline @ [nl] @ bullets_txt))"

text \<open>
  The generative service: the call either raises or gives a response, whose \<open>text\<close>
  attribute raises, is missing or holds a string, and which \<open>str\<close> renders.
\<close>

record gen_response =
  resp_text :: "exn + string option"
  resp_str :: string

definition prompt_of :: "string \<Rightarrow> string \<Rightarrow> string" where
  "prompt_of ttl text =
     ''You are a concise, factual summarizer. Output:'' @ [nl] @
     ''- One short headline (one line)'' @ [nl] @
     ''- Three clear bullet points (each 1 sentence)'' @ [nl, nl] @
     ''Article Title: '' @ ttl @ [nl, nl] @ ''Article Text:'' @ [nl] @ text @ [nl, nl] @
     ''Summary:''"

text \<open>The body of the \<open>try\<close> block of \<open>summarize\<close>.\<close>

definition summarize_gemini :: "(string \<Rightarrow> exn + gen_response) \<Rightarrow> string \<Rightarrow> string \<Rightarrow> exn + string" where
  "summarize_gemini generate_content ttl text =
     (case generate_content (prompt_of ttl text) of
        Inl e \<Rightarrow> Inl e
      | Inr resp \<Rightarrow>
          (case resp_text resp of
             Inl e \<Rightarrow> Inl e
           | Inr None \<Rightarrow> Inr (resp_str resp)
           | Inr (Some t) \<Rightarrow> if t \<noteq> [] then Inr (strip t) else Inr (resp_str resp)))"

definition summarize :: "(string \<Rightarrow> exn + gen_response) \<Rightarrow> config \<Rightarrow> string \<Rightarrow> string \<Rightarrow> string" where
  "summarize generate_content cfg ttl text =
     (if GOOGLE_API_KEY cfg \<noteq> [] \<and> GEMINI_AVAILABLE cfg
      then
        (case summarize_gemini generate_content ttl text of
           Inr s \<Rightarrow> s
         | Inl e \<Rightarrow> simple_extractive_summary text 3)
      else simple_extractive_summary text 3)"

section \<open>Dedup Store\<close>

text \<open>
  The file \<open>SENT_FILE\<close>. Its text is modelled by what \<open>json.load\<close> makes of it: the file is
  absent, or opening or parsing it raises, or it holds a JSON value, which is a list of
  strings (what \<open>save_sent_set\<close> writes) or something else. A Python set is finite: the
  DedupSet is a finite set of strings.
\<close>

datatype json = JList "string list" | JOther

datatype sent_file = Absent | Unreadable | Stored json

definition load_sent_set :: "config \<Rightarrow> sent_file \<Rightarrow> string fset" where
  "load_sent_set cfg file =
     (if \<not> PERSIST_SENT cfg then {||}
      else
        (case file of
           Absent \<Rightarrow> {||}
         | Unreadable \<Rightarrow> {||}
         | Stored (JList xs) \<Rightarrow> fset_of_list xs
         | Stored JOther \<Rightarrow> fset_of_list []))"

text \<open>
  \<open>save_sent_set\<close>: \<open>writable\<close> tells whether opening and writing the file succeed; a
  failure is caught and leaves the file as it was.
\<close>

definition save_sent_set :: "config \<Rightarrow> bool \<Rightarrow> string fset \<Rightarrow> sent_file \<Rightarrow> sent_file" where
  "save_sent_set cfg writable sent file =
     (if \<not> PERSIST_SENT cfg then file
      else if writable then Stored (JList (sorted_list_of_fset sent))
      else file)"

section \<open>Digest Collector\<close>

text \<open>
  Everything outside the program that a run consults: the URL parser, the feed parser,
  the network, the generative service, the clock, the mail transport and whether the
  dedup file can be written.
\<close>

record world =
  urlparse_netloc :: netloc_fn
  feedparser_parse :: "string \<Rightarrow> exn + entry list"
  requests_get :: "string \<Rightarrow> exn + response"
  generate_content :: "string \<Rightarrow> exn + gen_response"
  utcnow :: int
  smtp_send :: "exn option"
  file_writable :: bool

text \<open>A DigestItem; \<open>published.isoformat()\<close> is kept as the time itself.\<close>

record digest_item =
  item_title :: string
  item_url :: string
  item_summary :: string
  item_published :: int

text \<open>The work a run performs on a candidate, in the order it performs it.\<close>

datatype event = Fetch string | Filter string | Summarize string | Sleep

record run_state =
  collected :: "digest_item list"
  events :: "event list"

text \<open>The published time: \<open>published_parsed\<close>, else \<open>updated_parsed\<close>, else \<open>now\<close>.\<close>

definition published_of :: "int \<Rightarrow> entry \<Rightarrow> int" where
  "published_of now e =
     (case published_parsed e of
        Some t \<Rightarrow> t
      | None \<Rightarrow> (case updated_parsed e of Some t \<Rightarrow> t | None \<Rightarrow> now))"

definition feed_candidates :: "world \<Rightarrow> config \<Rightarrow> string \<Rightarrow> (int \<times> entry) list" where
  "feed_candidates w cfg feed =
     (case feedparser_parse w feed of
        Inl e \<Rightarrow> []
      | Inr entries \<Rightarrow> map (\<lambda>e. (published_of (utcnow w) e, e)) (py_take (MAX_PER_FEED cfg) entries))"

text \<open>\<open>candidates.sort(key=lambda x: x[0], reverse=True)\<close>: newest first, stable.\<close>

definition gather_candidates :: "world \<Rightarrow> config \<Rightarrow> (int \<times> entry) list" where
  "gather_candidates w cfg =
     sort_key (\<lambda>c. - fst c) (concat (map (feed_candidates w cfg) (FEED_URLS cfg)))"

text \<open>
  The text a candidate is judged on: the extracted text, or the feed's summary or
  description when there is none, or nothing at all.
\<close>

definition resolve_text :: "string option \<Rightarrow> entry \<Rightarrow> string option" where
  "resolve_text extracted e =
     (if extracted \<noteq> None \<and> extracted \<noteq> Some [] then extracted
      else
        (case or_opt (summary e) (description e) of
           None \<Rightarrow> None
         | Some fallback \<Rightarrow> if fallback \<noteq> [] then Some fallback else None))"

text \<open>One pass through the body of the loop over the candidates, after the \<open>break\<close> test.\<close>

definition collect_step :: "world \<Rightarrow> config \<Rightarrow> string fset \<Rightarrow> int \<times> entry \<Rightarrow> run_state \<Rightarrow> run_state" where
  "collect_step w cfg sent cand st =
     (let published = fst cand;
          e = snd cand;
          url = entry_url e;
          ttl = (case title e of Some t \<Rightarrow> t | None \<Rightarrow> if url \<noteq> [] then url else ''Untitled'')
      in
        if url = [] then st
        else if url |\<in>| sent then st
        else
          (let extracted = fst (fetch_page (requests_get w) cfg url);
               st1 = st\<lparr>events := events st @ [Fetch url]\<rparr>
           in
             (case resolve_text extracted e of
                None \<Rightarrow> st1
              | Some text \<Rightarrow>
                  (let ok = fst (passes_filters (urlparse_netloc w) cfg e (Some text));
                       st2 = st1\<lparr>events := events st1 @ [Filter url]\<rparr>
                   in
                     if \<not> ok then st2
                     else
                       (let summary_txt = summarize (generate_content w) cfg ttl text
                        in st2\<lparr>collected := collected st2 @
                                  [\<lparr>item_title = ttl, item_url = url,
                                    item_summary = summary_txt, item_published = published\<rparr>],
                                events := events st2 @ [Summarize url, Sleep]\<rparr>)))))"

fun collect_loop ::
  "world \<Rightarrow> config \<Rightarrow> string fset \<Rightarrow> int \<Rightarrow> (int \<times> entry) list \<Rightarrow> run_state \<Rightarrow> run_state" where
  "collect_loop w cfg sent max_items [] st = st"
| "collect_loop w cfg sent max_items (cand # cands) st =
     (if int (length (collected st)) \<ge> max_items then st
      else collect_loop w cfg sent max_items cands (collect_step w cfg sent cand st))"

definition collect_run :: "world \<Rightarrow> config \<Rightarrow> sent_file \<Rightarrow> int \<Rightarrow> run_state" where
  "collect_run w cfg file max_items =
     collect_loop w cfg (load_sent_set cfg file) max_items (gather_candidates w cfg)
       \<lparr>collected = [], events = []\<rparr>"

definition collect_and_summarize :: "world \<Rightarrow> config \<Rightarrow> sent_file \<Rightarrow> int \<Rightarrow> digest_item list" where
  "collect_and_summarize w cfg file max_items = collected (collect_run w cfg file max_items)"

section \<open>Runner\<close>

text \<open>
  \<open>send_email\<close>: printing in a dry run, a \<open>RuntimeError\<close> when a credential is missing,
  otherwise what the mail transport does. The subject and the body have no part in that.
\<close>

definition send_email :: "world \<Rightarrow> config \<Rightarrow> exn + unit" where
  "send_email w cfg =
     (if DRY_RUN cfg then Inr ()
      else if SENDER_EMAIL cfg = [] \<or> RECEIVER_EMAIL cfg = [] \<or> APP_PASSWORD cfg = []
      then Inl (OtherException ''SENDER_EMAIL, RECEIVER_EMAIL and APP_PASSWORD environment variables required to send email.'')
      else (case smtp_send w of Some e \<Rightarrow> Inl e | None \<Rightarrow> Inr ()))"

text \<open>\<open>main\<close>: the dedup file after the run, or the exception that ends the run.\<close>

definition main :: "world \<Rightarrow> config \<Rightarrow> sent_file \<Rightarrow> exn + sent_file" where
  "main w cfg file =
     (let items = collect_and_summarize w cfg file (MAX_ITEMS cfg)
      in
        if items = [] then Inr file
        else
          (case send_email w cfg of
             Inl e \<Rightarrow> Inl e
           | Inr u \<Rightarrow>
               if PERSIST_SENT cfg \<and> \<not> DRY_RUN cfg
               then Inr (save_sent_set cfg (file_writable w)
                           (fold finsert (map item_url items) (load_sent_set cfg file)) file)
               else Inr file))"

section \<open>Notions used to state the properties\<close>

text \<open>The whitespace-normalised text and its sentences, as \<open>simple_extractive_summary\<close> computes them.\<close>

definition normalize_ws :: "string \<Rightarrow> string" where
  "normalize_ws text = strip (sub_ws text)"

definition sentences_of :: "string \<Rightarrow> string list" where
  "sentences_of text = sentence_split [] (normalize_ws text)"

text \<open>The lines of a summary that start with a dash and a blank.\<close>

fun split_lines :: "string \<Rightarrow> string \<Rightarrow> string list" where
  "split_lines cur [] = [cur]"
| "split_lines cur (c # cs) = (if c = nl then cur # split_lines [] cs else split_lines (cur @ [c]) cs)"

definition bullet_lines :: "string \<Rightarrow> string list" where
  "bullet_lines out = filter (prefix ''- '') (split_lines [] out)"

text \<open>The settings when no environment variable is set and the Gemini client is not installed.\<close>

definition default_config :: config where
  "default_config =
     \<lparr>FEED_URLS =
        [''https://timesofindia.indiatimes.com/rssfeedstopstories.cms'',
         ''https://www.thehindu.com/news/national/feeder/default.rss'',
         ''https://www.hindustantimes.com/rss/topnews/rssfeed.xml'',
         ''https://indianexpress.com/section/india/feed/'',
         ''https://feeds.feedburner.com/ndtvnews-top-stories'',
         ''https://www.indiatoday.in/rss/home''],
      ALLOW_DOMAINS = DEFAULT_ALLOW_DOMAINS,
      INCLUDE_KEYWORDS = [], EXCLUDE_KEYWORDS = [],
      MAX_ITEMS = 10, MAX_PER_FEED = 25, MIN_ARTICLE_LENGTH = 150,
      DRY_RUN = False, GOOGLE_API_KEY = ''API_KEY'', GEMINI_AVAILABLE = False,
      SENDER_EMAIL = ''sender@gmail.com'', RECEIVER_EMAIL = ''receiver@gmail.com'',
      APP_PASSWORD = ''xxxx xxxx xxxx xxxx'', PERSIST_SENT = True\<rparr>"

text \<open>
  The Domain Matcher as the specification words it: the host with a leading \<open>www.\<close>
  stripped, then lowercased, then searched for an entry of the allow-set.
\<close>

definition strip_leading_www :: "string \<Rightarrow> string" where
  "strip_leading_www host = (if prefix ''www.'' host then drop 4 host else host)"

definition spec_domain_allowed :: "netloc_fn \<Rightarrow> config \<Rightarrow> string \<Rightarrow> bool" where
  "spec_domain_allowed np cfg url \<longleftrightarrow>
     (case np url of
        Inl e \<Rightarrow> False
      | Inr host \<Rightarrow> list_ex (\<lambda>allow. sublist allow (lower (strip_leading_www host))) (ALLOW_DOMAINS cfg))"

text \<open>The four checks of \<open>passes_filters\<close>, each taken alone.\<close>

definition domain_check_fails :: "netloc_fn \<Rightarrow> config \<Rightarrow> entry \<Rightarrow> bool" where
  "domain_check_fails np cfg e \<longleftrightarrow>
     ALLOW_DOMAINS cfg \<noteq> [] \<and> \<not> domain_allowed cfg (domain_of np (entry_url e))"

definition exclude_hit :: "config \<Rightarrow> entry \<Rightarrow> bool" where
  "exclude_hit cfg e \<longleftrightarrow> (\<exists>kw \<in> set (EXCLUDE_KEYWORDS cfg). kw \<noteq> [] \<and> sublist kw (combined_text e))"

definition include_hit :: "config \<Rightarrow> entry \<Rightarrow> bool" where
  "include_hit cfg e \<longleftrightarrow> (\<exists>kw \<in> set (INCLUDE_KEYWORDS cfg). sublist kw (combined_text e))"

definition include_check_fails :: "config \<Rightarrow> entry \<Rightarrow> bool" where
  "include_check_fails cfg e \<longleftrightarrow> INCLUDE_KEYWORDS cfg \<noteq> [] \<and> \<not> include_hit cfg e"

definition too_short_reason :: "nat \<Rightarrow> string" where
  "too_short_reason n = ''too_short(len='' @ str_of_nat n @ '')''"

text \<open>A feed entry on an allowed domain, with a short feed summary.\<close>

definition example_entry :: entry where
  "example_entry =
     \<lparr>link = Some ''https://thehindu.com/a'', title = Some ''Budget announced'',
      summary = Some ''The budget was announced today.'', description = None,
      published_parsed = Some 100, updated_parsed = None\<rparr>"

text \<open>The same entry on a domain outside the allow-list.\<close>

definition other_entry :: entry where
  "other_entry = example_entry\<lparr>link := Some ''http://example.com/a''\<rparr>"

text \<open>A network for the witnesses: a page, a page with too little text, an HTTP error,
  a page the parser fails on, and no connection for any other URL.\<close>

definition page_of :: "string list \<Rightarrow> response" where
  "page_of ps = \<lparr>status_error = None, parsed = Inr \<lparr>article = None, paragraphs = ps\<rparr>\<rparr>"

definition example_get :: "string \<Rightarrow> exn + response" where
  "example_get url =
     (if url = ''https://thehindu.com/a'' then Inr (page_of [''  The budget was announced today.  '', ''   '', ''It is large.''])
      else if url = ''https://thehindu.com/short'' then Inr (page_of [''Hi.''])
      else if url = ''https://thehindu.com/404'' then Inr \<lparr>status_error = Some ''404 Client Error'', parsed = Inl (OtherException ''unused'')\<rparr>
      else if url = ''https://thehindu.com/bad'' then Inr \<lparr>status_error = None, parsed = Inl (OtherException ''bad markup'')\<rparr>
      else Inl (RequestException ''connection refused''))"

definition short_min_config :: config where
  "short_min_config = default_config\<lparr>MIN_ARTICLE_LENGTH := 10\<rparr>"

text \<open>The generative service configured, answering with a quota error or with a response
  whose text cannot be read.\<close>

definition gemini_config :: config where
  "gemini_config = default_config\<lparr>GEMINI_AVAILABLE := True\<rparr>"

definition quota_exceeded :: "string \<Rightarrow> exn + gen_response" where
  "quota_exceeded prompt = Inl (OtherException ''429 quota exceeded'')"

definition blocked_response :: "string \<Rightarrow> exn + gen_response" where
  "blocked_response prompt =
     Inr \<lparr>resp_text = Inl (OtherException ''response has no valid part''), resp_str = ''<response>''\<rparr>"

text \<open>
  A world for the witnesses: the first feed carries two entries, the second feed
  carries the newer of the two again; the page of the first URL can be fetched, that of
  the second cannot, so that its feed summary stands in.
\<close>

definition entry_a :: entry where
  "entry_a = example_entry\<lparr>published_parsed := Some 200\<rparr>"

definition entry_b :: entry where
  "entry_b = example_entry\<lparr>link := Some ''https://thehindu.com/b'', title := Some ''Rain expected''\<rparr>"

definition example_world :: world where
  "example_world =
     \<lparr>urlparse_netloc = simple_netloc,
      feedparser_parse =
        (\<lambda>feed. if feed = ''feed1'' then Inr [entry_b, entry_a]
                else if feed = ''feed2'' then Inr [entry_a]
                else Inl (OtherException ''not a feed'')),
      requests_get = example_get,
      generate_content = quota_exceeded,
      utcnow = 1000,
      smtp_send = None,
      file_writable = True\<rparr>"

definition two_feed_config :: config where
  "two_feed_config = short_min_config\<lparr>FEED_URLS := [''feed1'', ''feed2'']\<rparr>"

definition one_item_config :: config where
  "one_item_config = short_min_config\<lparr>FEED_URLS := [''feed1''], MAX_ITEMS := 1\<rparr>"

text \<open>The URL an event works on.\<close>

fun event_url :: "event \<Rightarrow> string option" where
  "event_url (Fetch u) = Some u"
| "event_url (Filter u) = Some u"
| "event_url (Summarize u) = Some u"
| "event_url Sleep = None"

text \<open>
  A run state is fresh for a DedupSet when no collected item and no performed work
  concerns an empty URL or a URL of the set.
\<close>

definition fresh_state :: "string fset \<Rightarrow> run_state \<Rightarrow> bool" where
  "fresh_state sent st \<longleftrightarrow>
     (\<forall>it \<in> set (collected st). item_url it \<noteq> [] \<and> item_url it |\<notin>| sent)
     \<and> (\<forall>ev \<in> set (events st). \<forall>u. event_url ev = Some u \<longrightarrow> u \<noteq> [] \<and> u |\<notin>| sent)"

text \<open>
  An entry is accepted when, the dedup test apart, the loop body appends it: its URL is
  not empty, a text is resolved for it and the Filter Chain passes.
\<close>

definition accepts :: "world \<Rightarrow> config \<Rightarrow> entry \<Rightarrow> bool" where
  "accepts w cfg e \<longleftrightarrow>
     entry_url e \<noteq> []
     \<and> (case resolve_text (fst (fetch_page (requests_get w) cfg (entry_url e))) e of
          None \<Rightarrow> False
        | Some text \<Rightarrow> fst (passes_filters (urlparse_netloc w) cfg e (Some text)))"

section \<open>Properties\<close>

subsection \<open>Deterministic fallback summarizer\<close>

text \<open>
  C2 (as amended). \<open>simple_extractive_summary\<close> with the default \<open>max_sentences = 3\<close> returns
  the empty string on empty input; on a text of exactly one sentence it returns that
  sentence as the headline followed by one dash-prefixed line that repeats it; on a text
  of five sentences it returns the first sentence as the headline and exactly two
  dash-prefixed lines, the second and third sentences. When the pool of chosen sentences
  is empty, the headline is the whitespace-normalised text cut to 100 characters with
  three dots appended.
\<close>

theorem C2_fallback_summary:
  "simple_extractive_summary [] 3 = []
   \<and> (\<forall>text s. normalize_ws text \<noteq> [] \<and> sentences_of text = [s] \<longrightarrow>
         simple_extractive_summary text 3 = strip s @ [nl] @ ''- '' @ strip s)
   \<and> (\<forall>text s1 s2 s3 s4 s5. sentences_of text = [s1, s2, s3, s4, s5] \<longrightarrow>
         simple_extractive_summary text 3 =
           strip s1 @ [nl] @ join [nl] [''- '' @ strip s2, ''- '' @ strip s3])
   \<and> (\<forall>text n. normalize_ws text \<noteq> [] \<and> py_take n (sentences_of text) = [] \<longrightarrow>
         simple_extractive_summary text n = strip (take 100 (normalize_ws text) @ ''...'') @ [nl])"
proof (intro conjI allI impI)
  show "simple_extractive_summary [] 3 = []"
    by (simp add: simple_extractive_summary_def strip_def)
next
  fix tx s
  assume "normalize_ws tx \<noteq> [] \<and> sentences_of tx = [s]"
  then show "simple_extractive_summary tx 3 = strip s @ [nl] @ ''- '' @ strip s"
    by (simp add: simple_extractive_summary_def normalize_ws_def sentences_of_def py_take_def Let_def)
next
  fix tx s1 s2 s3 s4 s5
  assume h: "sentences_of tx = [s1, s2, s3, s4, s5]"
  have "normalize_ws tx \<noteq> []"
  proof
    assume "normalize_ws tx = []"
    then have "sentences_of tx = [[]]" by (simp add: sentences_of_def)
    with h show False by simp
  qed
  with h show "simple_extractive_summary tx 3 =
           strip s1 @ [nl] @ join [nl] [''- '' @ strip s2, ''- '' @ strip s3]"
    by (simp add: simple_extractive_summary_def normalize_ws_def sentences_of_def py_take_def Let_def
        numeral_3_eq_3)
next
  fix tx n
  assume "normalize_ws tx \<noteq> [] \<and> py_take n (sentences_of tx) = []"
  then show "simple_extractive_summary tx n = strip (take 100 (normalize_ws tx) @ ''...'') @ [nl]"
    by (simp add: simple_extractive_summary_def normalize_ws_def sentences_of_def Let_def py_take_def)
qed

text \<open>
  The claim as first stated, that a single sentence comes back with no bullet line, fails:
  the one-sentence text \<open>Budget announced.\<close> comes back with one bullet line.
\<close>

theorem C2_single_sentence_counterexample:
  "sentences_of ''Budget announced.'' = [''Budget announced.'']
   \<and> bullet_lines (simple_extractive_summary ''Budget announced.'' 3) = [''- Budget announced.'']"
  by code_simp

theorem C2_fallback_summary_witness:
  "simple_extractive_summary ''Budget announced.'' 3 = ''Budget announced.'' @ [nl] @ ''- Budget announced.''
   \<and> simple_extractive_summary ''A one. B two? C three! D four. E five.'' 3
       = ''A one.'' @ [nl] @ ''- B two?'' @ [nl] @ ''- C three!''
   \<and> simple_extractive_summary ''A  b'' 0 = ''A b...'' @ [nl]"
proof -
  have n1: "normalize_ws ''Budget announced.'' \<noteq> []
            \<and> sentences_of ''Budget announced.'' = [''Budget announced.'']"
    by code_simp
  have n5: "sentences_of ''A one. B two? C three! D four. E five.''
            = [''A one.'', ''B two?'', ''C three!'', ''D four.'', ''E five.'']"
    by code_simp
  have n0: "normalize_ws ''A  b'' \<noteq> [] \<and> py_take 0 (sentences_of ''A  b'') = []"
    by code_simp
  have s: "strip ''Budget announced.'' = ''Budget announced.''" "strip ''A one.'' = ''A one.''"
    "strip ''B two?'' = ''B two?''" "strip ''C three!'' = ''C three!''"
    "strip (take 100 (normalize_ws ''A  b'') @ ''...'') = ''A b...''"
    by code_simp+
  from C2_fallback_summary n1 n5 n0 s show ?thesis
    by simp
qed

subsection \<open>Domain Matcher\<close>

lemma replace_www_leading: "py_replace ''www.'' [] (''www.'' @ s) = py_replace ''www.'' [] s"
  by simp

text \<open>
  C3 (as amended). The verdict on a URL is computed from its host by lowercasing it,
  removing every occurrence of \<open>www.\<close> (found from the left, not only a leading one) and
  testing whether any entry of the allow-set is a substring of the result. Consequently,
  changing the letter case of the host or adding or removing a leading \<open>www.\<close> does not
  change the verdict.
\<close>

theorem C3_domain_matcher:
  "(\<forall>h. np url = Inr h \<longrightarrow>
      domain_allowed cfg (domain_of np url)
        = (\<exists>allow \<in> set (ALLOW_DOMAINS cfg). sublist allow (py_replace ''www.'' [] (lower h))))
   \<and> (\<forall>url' h h'. np url = Inr h \<and> np url' = Inr h'
          \<and> (lower h' = lower h \<or> lower h' = ''www.'' @ lower h)
        \<longrightarrow> domain_allowed cfg (domain_of np url') = domain_allowed cfg (domain_of np url))"
proof (intro conjI allI impI)
  fix h
  assume "np url = Inr h"
  then show "domain_allowed cfg (domain_of np url)
        = (\<exists>allow \<in> set (ALLOW_DOMAINS cfg). sublist allow (py_replace ''www.'' [] (lower h)))"
    by (simp add: domain_allowed_def domain_of_def list_ex_iff)
next
  fix url' h h'
  assume a: "np url = Inr h \<and> np url' = Inr h' \<and> (lower h' = lower h \<or> lower h' = ''www.'' @ lower h)"
  then have "py_replace ''www.'' [] (lower h') = py_replace ''www.'' [] (lower h)"
    using replace_www_leading [of "lower h"] by auto
  with a have "domain_of np url' = domain_of np url"
    by (simp add: domain_of_def)
  then show "domain_allowed cfg (domain_of np url') = domain_allowed cfg (domain_of np url)"
    by simp
qed

text \<open>
  The claim as first stated, that only a leading \<open>www.\<close> is stripped, fails: the host
  \<open>ndtv.www.com\<close> is allowed by the code, since it becomes \<open>ndtv.com\<close>, and is rejected by
  the matcher the specification describes.
\<close>

theorem C3_leading_www_counterexample:
  "domain_allowed default_config (domain_of simple_netloc ''http://ndtv.www.com/x'')
   \<and> \<not> spec_domain_allowed simple_netloc default_config ''http://ndtv.www.com/x''"
  by code_simp

theorem C3_domain_matcher_witness:
  "domain_allowed default_config (domain_of simple_netloc ''http://WWW.TheHindu.com/x'')
     = domain_allowed default_config (domain_of simple_netloc ''http://thehindu.com/x'')
   \<and> domain_allowed default_config (domain_of simple_netloc ''http://thehindu.com/x'')"
proof -
  have a: "simple_netloc ''http://thehindu.com/x'' = Inr ''thehindu.com''"
    "simple_netloc ''http://WWW.TheHindu.com/x'' = Inr ''WWW.TheHindu.com''"
    by code_simp+
  have b: "lower ''WWW.TheHindu.com'' = ''www.'' @ lower ''thehindu.com''"
    by code_simp
  have c: "domain_allowed default_config (domain_of simple_netloc ''http://thehindu.com/x'')"
    by code_simp
  from C3_domain_matcher [of simple_netloc "''http://thehindu.com/x''" default_config] a b c
  show ?thesis by blast
qed

subsection \<open>Filter Chain\<close>

lemma first_exclude_None: "first_exclude kws c = None \<longleftrightarrow> \<not> (\<exists>kw \<in> set kws. kw \<noteq> [] \<and> sublist kw c)"
  by (induction kws) auto

lemma first_exclude_Some:
  "first_exclude kws c = Some kw \<Longrightarrow>
     kw \<noteq> [] \<and> sublist kw c
     \<and> (\<exists>pre post. kws = pre @ kw # post \<and> (\<forall>k \<in> set pre. k = [] \<or> \<not> sublist k c))"
proof (induction kws)
  case Nil
  then show ?case by simp
next
  case (Cons k kws)
  show ?case
  proof (cases "k \<noteq> [] \<and> sublist k c")
    case True
    with Cons.prems have "kw = k" by simp
    with True show ?thesis by (intro conjI exI [of _ "[]"] exI [of _ kws]) auto
  next
    case False
    with Cons.prems have "first_exclude kws c = Some kw" by auto
    from Cons.IH [OF this] obtain pre post where
      p: "kw \<noteq> []" "sublist kw c" "kws = pre @ kw # post" "\<forall>k \<in> set pre. k = [] \<or> \<not> sublist k c"
      by blast
    with False show ?thesis
      by (intro conjI exI [of _ "k # pre"] exI [of _ post]) auto
  qed
qed

text \<open>
  C4. \<open>passes_filters\<close> runs its checks in the order domain allow-list, exclude keywords,
  include keywords, minimum effective length, and the first check that fails gives the
  result with its reason code. A disallowed domain gives \<open>domain_not_allowed:<host>\<close>
  whatever the keywords and the lengths are; on an allowed domain a matching exclude
  keyword gives \<open>exclude_keyword:<kw>\<close> for the first such keyword of the list, whether
  an include keyword matches or not; then \<open>include_keywords_not_matched\<close>; then
  \<open>too_short(len=<n>)\<close>; and \<open>ok\<close> when no check fails.
\<close>

theorem C4_filter_order:
  "(domain_check_fails np cfg e \<longrightarrow>
      passes_filters np cfg e x = (False, ''domain_not_allowed:'' @ domain_of np (entry_url e)))
   \<and> (\<not> domain_check_fails np cfg e \<and> exclude_hit cfg e \<longrightarrow>
        (\<exists>kw pre post. EXCLUDE_KEYWORDS cfg = pre @ kw # post
           \<and> kw \<noteq> [] \<and> sublist kw (combined_text e)
           \<and> (\<forall>k \<in> set pre. k = [] \<or> \<not> sublist k (combined_text e))
           \<and> passes_filters np cfg e x = (False, ''exclude_keyword:'' @ kw)))
   \<and> (\<not> domain_check_fails np cfg e \<and> \<not> exclude_hit cfg e \<and> include_check_fails cfg e \<longrightarrow>
        passes_filters np cfg e x = (False, ''include_keywords_not_matched''))
   \<and> (\<not> domain_check_fails np cfg e \<and> \<not> exclude_hit cfg e \<and> \<not> include_check_fails cfg e
        \<and> int (effective_len e x) < MIN_ARTICLE_LENGTH cfg \<longrightarrow>
        passes_filters np cfg e x = (False, too_short_reason (effective_len e x)))
   \<and> (\<not> domain_check_fails np cfg e \<and> \<not> exclude_hit cfg e \<and> \<not> include_check_fails cfg e
        \<and> \<not> int (effective_len e x) < MIN_ARTICLE_LENGTH cfg \<longrightarrow>
        passes_filters np cfg e x = (True, ''ok''))"
proof (intro conjI impI)
  assume "domain_check_fails np cfg e"
  then show "passes_filters np cfg e x = (False, ''domain_not_allowed:'' @ domain_of np (entry_url e))"
    by (simp add: passes_filters_def domain_check_fails_def Let_def)
next
  assume a: "\<not> domain_check_fails np cfg e \<and> exclude_hit cfg e"
  then obtain kw where k: "first_exclude (EXCLUDE_KEYWORDS cfg) (combined_text e) = Some kw"
    using first_exclude_None [of "EXCLUDE_KEYWORDS cfg" "combined_text e"]
    by (auto simp: exclude_hit_def)
  from first_exclude_Some [OF k] obtain pre post where
    p: "kw \<noteq> []" "sublist kw (combined_text e)" "EXCLUDE_KEYWORDS cfg = pre @ kw # post"
       "\<forall>k \<in> set pre. k = [] \<or> \<not> sublist k (combined_text e)"
    by blast
  from a k have "passes_filters np cfg e x = (False, ''exclude_keyword:'' @ kw)"
    by (simp add: passes_filters_def domain_check_fails_def Let_def)
  with p show "\<exists>kw pre post. EXCLUDE_KEYWORDS cfg = pre @ kw # post
           \<and> kw \<noteq> [] \<and> sublist kw (combined_text e)
           \<and> (\<forall>k \<in> set pre. k = [] \<or> \<not> sublist k (combined_text e))
           \<and> passes_filters np cfg e x = (False, ''exclude_keyword:'' @ kw)"
    by blast
next
  assume a: "\<not> domain_check_fails np cfg e \<and> \<not> exclude_hit cfg e \<and> include_check_fails cfg e"
  then have "first_exclude (EXCLUDE_KEYWORDS cfg) (combined_text e) = None"
    by (simp add: first_exclude_None exclude_hit_def)
  with a show "passes_filters np cfg e x = (False, ''include_keywords_not_matched'')"
    by (simp add: passes_filters_def domain_check_fails_def include_check_fails_def
        include_hit_def list_ex_iff Let_def)
next
  assume a: "\<not> domain_check_fails np cfg e \<and> \<not> exclude_hit cfg e \<and> \<not> include_check_fails cfg e
        \<and> int (effective_len e x) < MIN_ARTICLE_LENGTH cfg"
  then have "first_exclude (EXCLUDE_KEYWORDS cfg) (combined_text e) = None"
    by (simp add: first_exclude_None exclude_hit_def)
  with a show "passes_filters np cfg e x = (False, too_short_reason (effective_len e x))"
    by (simp add: passes_filters_def domain_check_fails_def include_check_fails_def
        include_hit_def list_ex_iff Let_def too_short_reason_def)
next
  assume a: "\<not> domain_check_fails np cfg e \<and> \<not> exclude_hit cfg e \<and> \<not> include_check_fails cfg e
        \<and> \<not> int (effective_len e x) < MIN_ARTICLE_LENGTH cfg"
  then have "first_exclude (EXCLUDE_KEYWORDS cfg) (combined_text e) = None"
    by (simp add: first_exclude_None exclude_hit_def)
  with a show "passes_filters np cfg e x = (True, ''ok'')"
    by (simp add: passes_filters_def domain_check_fails_def include_check_fails_def
        include_hit_def list_ex_iff Let_def)
qed

theorem C4_filter_order_witness:
  "passes_filters simple_netloc default_config other_entry (Some ''short'')
     = (False, ''domain_not_allowed:example.com'')
   \<and> passes_filters simple_netloc
        (default_config\<lparr>EXCLUDE_KEYWORDS := [''budget''], INCLUDE_KEYWORDS := [''budget'']\<rparr>)
        example_entry (Some ''short'')
     = (False, ''exclude_keyword:budget'')
   \<and> passes_filters simple_netloc (default_config\<lparr>INCLUDE_KEYWORDS := [''cricket'']\<rparr>)
        example_entry (Some ''short'')
     = (False, ''include_keywords_not_matched'')
   \<and> passes_filters simple_netloc default_config example_entry (Some ''short'')
     = (False, ''too_short(len=5)'')
   \<and> passes_filters simple_netloc (default_config\<lparr>MIN_ARTICLE_LENGTH := 5\<rparr>)
        example_entry (Some ''short'')
     = (True, ''ok'')"
proof (intro conjI)
  have h: "domain_check_fails simple_netloc default_config other_entry"
    by code_simp
  have d: "domain_of simple_netloc (entry_url other_entry) = ''example.com''"
    by code_simp
  from C4_filter_order [of simple_netloc default_config other_entry "Some ''short''"] h d
  show "passes_filters simple_netloc default_config other_entry (Some ''short'')
     = (False, ''domain_not_allowed:example.com'')"
    by simp
next
  let ?cfg = "default_config\<lparr>EXCLUDE_KEYWORDS := [''budget''], INCLUDE_KEYWORDS := [''budget'']\<rparr>"
  have h: "\<not> domain_check_fails simple_netloc ?cfg example_entry \<and> exclude_hit ?cfg example_entry"
    by code_simp
  have i: "include_hit ?cfg example_entry"
    by code_simp
  from C4_filter_order [of simple_netloc ?cfg example_entry "Some ''short''"] h
  show "passes_filters simple_netloc ?cfg example_entry (Some ''short'')
     = (False, ''exclude_keyword:budget'')"
    by (auto simp: Cons_eq_append_conv)
next
  let ?cfg = "default_config\<lparr>INCLUDE_KEYWORDS := [''cricket'']\<rparr>"
  have h: "\<not> domain_check_fails simple_netloc ?cfg example_entry \<and> \<not> exclude_hit ?cfg example_entry
           \<and> include_check_fails ?cfg example_entry"
    by code_simp
  from C4_filter_order [of simple_netloc ?cfg example_entry "Some ''short''"] h
  show "passes_filters simple_netloc ?cfg example_entry (Some ''short'')
     = (False, ''include_keywords_not_matched'')"
    by simp
next
  have h: "\<not> domain_check_fails simple_netloc default_config example_entry
           \<and> \<not> exclude_hit default_config example_entry
           \<and> \<not> include_check_fails default_config example_entry
           \<and> int (effective_len example_entry (Some ''short'')) < MIN_ARTICLE_LENGTH default_config"
    by code_simp
  have r: "too_short_reason (effective_len example_entry (Some ''short'')) = ''too_short(len=5)''"
    by code_simp
  from C4_filter_order [of simple_netloc default_config example_entry "Some ''short''"] h r
  show "passes_filters simple_netloc default_config example_entry (Some ''short'')
     = (False, ''too_short(len=5)'')"
    by simp
next
  let ?cfg = "default_config\<lparr>MIN_ARTICLE_LENGTH := 5\<rparr>"
  have h: "\<not> domain_check_fails simple_netloc ?cfg example_entry
           \<and> \<not> exclude_hit ?cfg example_entry
           \<and> \<not> include_check_fails ?cfg example_entry
           \<and> \<not> int (effective_len example_entry (Some ''short'')) < MIN_ARTICLE_LENGTH ?cfg"
    by code_simp
  from C4_filter_order [of simple_netloc ?cfg example_entry "Some ''short''"] h
  show "passes_filters simple_netloc ?cfg example_entry (Some ''short'') = (True, ''ok'')"
    by simp
qed

text \<open>
  C5 (as amended). When the effective length is under the minimum, \<open>passes_filters\<close>
  always rejects; the reason is \<open>too_short(len=<n>)\<close> with the measured length whenever
  the three earlier checks pass. The measured length is the length of the extracted text
  when that text is present and non-empty, and the length of the feed summary otherwise.
\<close>

theorem C5_too_short:
  "(int (effective_len e x) < MIN_ARTICLE_LENGTH cfg \<longrightarrow>
      fst (passes_filters np cfg e x) = False
      \<and> (\<not> domain_check_fails np cfg e \<and> \<not> exclude_hit cfg e \<and> \<not> include_check_fails cfg e \<longrightarrow>
           passes_filters np cfg e x = (False, ''too_short(len='' @ str_of_nat (effective_len e x) @ '')'')))
   \<and> (\<forall>t. x = Some t \<and> t \<noteq> [] \<longrightarrow> effective_len e x = length t)
   \<and> (x = None \<or> x = Some [] \<longrightarrow> effective_len e x = length (filter_summary e))"
proof (intro conjI impI allI)
  assume a: "int (effective_len e x) < MIN_ARTICLE_LENGTH cfg"
  then show "fst (passes_filters np cfg e x) = False"
    by (simp add: passes_filters_def Let_def split: option.split)
next
  assume a: "int (effective_len e x) < MIN_ARTICLE_LENGTH cfg"
    and b: "\<not> domain_check_fails np cfg e \<and> \<not> exclude_hit cfg e \<and> \<not> include_check_fails cfg e"
  then have "first_exclude (EXCLUDE_KEYWORDS cfg) (combined_text e) = None"
    by (simp add: first_exclude_None exclude_hit_def)
  with a b show "passes_filters np cfg e x
      = (False, ''too_short(len='' @ str_of_nat (effective_len e x) @ '')'')"
    by (simp add: passes_filters_def domain_check_fails_def include_check_fails_def
        include_hit_def list_ex_iff Let_def)
next
  fix t
  assume "x = Some t \<and> t \<noteq> []"
  then show "effective_len e x = length t"
    by (simp add: effective_len_def)
next
  assume "x = None \<or> x = Some []"
  then show "effective_len e x = length (filter_summary e)"
    by (auto simp: effective_len_def)
qed

text \<open>
  The claim as first stated, that the reason is always \<open>too_short\<close>, fails: a short text
  on a disallowed domain is rejected with \<open>domain_not_allowed\<close>.
\<close>

theorem C5_disallowed_domain_counterexample:
  "int (effective_len other_entry (Some ''short'')) < MIN_ARTICLE_LENGTH default_config
   \<and> passes_filters simple_netloc default_config other_entry (Some ''short'')
       = (False, ''domain_not_allowed:example.com'')"
  by code_simp

theorem C5_too_short_witness:
  "passes_filters simple_netloc default_config example_entry (Some ''short'')
     = (False, ''too_short(len=5)'')
   \<and> effective_len example_entry (Some ''short'') = 5
   \<and> effective_len example_entry None = 31"
proof -
  have h: "int (effective_len example_entry (Some ''short'')) < MIN_ARTICLE_LENGTH default_config
           \<and> \<not> domain_check_fails simple_netloc default_config example_entry
           \<and> \<not> exclude_hit default_config example_entry
           \<and> \<not> include_check_fails default_config example_entry"
    by code_simp
  have r: "str_of_nat 5 = ''5''" "length (filter_summary example_entry) = 31"
    "effective_len example_entry (Some ''short'') = 5"
    by code_simp+
  from C5_too_short [of example_entry "Some ''short''" default_config simple_netloc] h r
  have 1: "passes_filters simple_netloc default_config example_entry (Some ''short'')
     = (False, ''too_short(len=5)'')" "effective_len example_entry (Some ''short'') = 5"
    by simp_all
  from C5_too_short [of example_entry None default_config simple_netloc] r
  have 2: "effective_len example_entry None = 31"
    by simp
  from 1 2 show ?thesis by simp
qed

subsection \<open>Content Extractor\<close>

lemma fetch_body_cases:
  "fetch_body rg cfg url = Inr None \<or> (\<exists>e. fetch_body rg cfg url = Inl e)
   \<or> (\<exists>t. fetch_body rg cfg url = Inr (Some t) \<and> t \<noteq> [] \<and> length t \<le> 6000)"
  by (auto simp: fetch_body_def Let_def split: sum.splits option.splits)

text \<open>
  C7. \<open>fetch_page\<close> never raises: every exception of its body becomes a returned value.
  When the joined paragraph text is empty or shorter than the minimum article length the
  result is \<open>(None, None)\<close>, which no failure gives; when the request or the parsing raises,
  the result is \<open>(None, reason)\<close> with the reason \<open>fetch_error: ...\<close> or
  \<open>extract_error: ...\<close>; otherwise the result is the text cut to 6000 characters.
\<close>

theorem C7_fetch_page:
  "(\<forall>r sp. rg url = Inr r \<and> status_error r = None \<and> parsed r = Inr sp
        \<and> (paragraph_text sp = [] \<or> int (length (paragraph_text sp)) < MIN_ARTICLE_LENGTH cfg)
      \<longrightarrow> fetch_page rg cfg url = (None, None))
   \<and> (\<forall>e. fetch_body rg cfg url = Inl e \<longrightarrow>
         fetch_page rg cfg url
           = (None, Some ((case e of RequestException m \<Rightarrow> ''fetch_error: ''
                                   | OtherException m \<Rightarrow> ''extract_error: '') @ exn_str e)))
   \<and> (\<forall>e. rg url = Inl e \<longrightarrow> fetch_body rg cfg url = Inl e)
   \<and> (\<forall>r m. rg url = Inr r \<and> status_error r = Some m \<longrightarrow>
         fetch_body rg cfg url = Inl (RequestException m))
   \<and> (\<forall>r e. rg url = Inr r \<and> status_error r = None \<and> parsed r = Inl e \<longrightarrow>
         fetch_body rg cfg url = Inl e)
   \<and> (\<forall>r sp. rg url = Inr r \<and> status_error r = None \<and> parsed r = Inr sp
        \<and> \<not> (paragraph_text sp = [] \<or> int (length (paragraph_text sp)) < MIN_ARTICLE_LENGTH cfg)
      \<longrightarrow> fetch_page rg cfg url = (Some (take 6000 (paragraph_text sp)), None))
   \<and> (\<forall>t. fst (fetch_page rg cfg url) = Some t \<longrightarrow> length t \<le> 6000)
   \<and> (fetch_page rg cfg url = (None, None)
       \<or> (\<exists>reason. fetch_page rg cfg url = (None, Some reason))
       \<or> (\<exists>t. fetch_page rg cfg url = (Some t, None)))"
proof (intro conjI allI impI)
  fix r sp
  assume "rg url = Inr r \<and> status_error r = None \<and> parsed r = Inr sp
        \<and> (paragraph_text sp = [] \<or> int (length (paragraph_text sp)) < MIN_ARTICLE_LENGTH cfg)"
  then show "fetch_page rg cfg url = (None, None)"
    by (auto simp: fetch_page_def fetch_body_def Let_def)
next
  fix e
  assume "fetch_body rg cfg url = Inl e"
  then show "fetch_page rg cfg url
           = (None, Some ((case e of RequestException m \<Rightarrow> ''fetch_error: ''
                                   | OtherException m \<Rightarrow> ''extract_error: '') @ exn_str e))"
    by (cases e) (simp_all add: fetch_page_def)
next
  fix e
  assume "rg url = Inl e"
  then show "fetch_body rg cfg url = Inl e"
    by (simp add: fetch_body_def)
next
  fix r m
  assume "rg url = Inr r \<and> status_error r = Some m"
  then show "fetch_body rg cfg url = Inl (RequestException m)"
    by (simp add: fetch_body_def)
next
  fix r e
  assume "rg url = Inr r \<and> status_error r = None \<and> parsed r = Inl e"
  then show "fetch_body rg cfg url = Inl e"
    by (simp add: fetch_body_def)
next
  fix r sp
  assume "rg url = Inr r \<and> status_error r = None \<and> parsed r = Inr sp
        \<and> \<not> (paragraph_text sp = [] \<or> int (length (paragraph_text sp)) < MIN_ARTICLE_LENGTH cfg)"
  then show "fetch_page rg cfg url = (Some (take 6000 (paragraph_text sp)), None)"
    by (simp add: fetch_page_def fetch_body_def Let_def)
next
  fix t
  assume "fst (fetch_page rg cfg url) = Some t"
  with fetch_body_cases [of rg cfg url] show "length t \<le> 6000"
    by (auto simp: fetch_page_def split: sum.splits exn.splits)
next
  from fetch_body_cases [of rg cfg url]
  show "fetch_page rg cfg url = (None, None)
       \<or> (\<exists>reason. fetch_page rg cfg url = (None, Some reason))
       \<or> (\<exists>t. fetch_page rg cfg url = (Some t, None))"
    by (auto simp: fetch_page_def split: sum.splits exn.splits)
qed

theorem C7_fetch_page_witness:
  "fetch_page example_get short_min_config ''https://thehindu.com/short'' = (None, None)
   \<and> fetch_page example_get short_min_config ''https://thehindu.com/404''
       = (None, Some ''fetch_error: 404 Client Error'')
   \<and> fetch_page example_get short_min_config ''https://thehindu.com/bad''
       = (None, Some ''extract_error: bad markup'')
   \<and> fetch_page example_get short_min_config ''https://thehindu.com/none''
       = (None, Some ''fetch_error: connection refused'')
   \<and> fetch_page example_get short_min_config ''https://thehindu.com/a''
       = (Some ''The budget was announced today. It is large.'', None)"
proof (intro conjI)
  let ?u = "''https://thehindu.com/short''"
  have h: "example_get ?u = Inr (page_of [''Hi.''])" "status_error (page_of [''Hi.'']) = None"
    "parsed (page_of [''Hi.'']) = Inr \<lparr>article = None, paragraphs = [''Hi.'']\<rparr>"
    "int (length (paragraph_text \<lparr>article = None, paragraphs = [''Hi.'']\<rparr>))
       < MIN_ARTICLE_LENGTH short_min_config"
    by code_simp+
  from C7_fetch_page [of example_get ?u short_min_config] h
  show "fetch_page example_get short_min_config ?u = (None, None)"
    by blast
next
  let ?u = "''https://thehindu.com/404''"
  let ?r = "\<lparr>status_error = Some ''404 Client Error'', parsed = Inl (OtherException ''unused'')\<rparr>"
  have h: "example_get ?u = Inr ?r" "status_error ?r = Some ''404 Client Error''"
    by code_simp+
  from C7_fetch_page [of example_get ?u short_min_config] h
  have "fetch_body example_get short_min_config ?u = Inl (RequestException ''404 Client Error'')"
    by blast
  with C7_fetch_page [of example_get ?u short_min_config]
  show "fetch_page example_get short_min_config ?u = (None, Some ''fetch_error: 404 Client Error'')"
    by simp
next
  let ?u = "''https://thehindu.com/bad''"
  let ?r = "\<lparr>status_error = None, parsed = Inl (OtherException ''bad markup'')\<rparr>"
  have h: "example_get ?u = Inr ?r" "status_error ?r = None" "parsed ?r = Inl (OtherException ''bad markup'')"
    by code_simp+
  from C7_fetch_page [of example_get ?u short_min_config] h
  have "fetch_body example_get short_min_config ?u = Inl (OtherException ''bad markup'')"
    by blast
  with C7_fetch_page [of example_get ?u short_min_config]
  show "fetch_page example_get short_min_config ?u = (None, Some ''extract_error: bad markup'')"
    by simp
next
  let ?u = "''https://thehindu.com/none''"
  have h: "example_get ?u = Inl (RequestException ''connection refused'')"
    by code_simp
  from C7_fetch_page [of example_get ?u short_min_config] h
  have "fetch_body example_get short_min_config ?u = Inl (RequestException ''connection refused'')"
    by blast
  with C7_fetch_page [of example_get ?u short_min_config]
  show "fetch_page example_get short_min_config ?u = (None, Some ''fetch_error: connection refused'')"
    by simp
next
  let ?u = "''https://thehindu.com/a''"
  let ?ps = "[''  The budget was announced today.  '', ''   '', ''It is large.'']"
  let ?sp = "\<lparr>article = None, paragraphs = ?ps\<rparr>"
  have h: "example_get ?u = Inr (page_of ?ps)" "status_error (page_of ?ps) = None"
    "parsed (page_of ?ps) = Inr ?sp"
    "\<not> (paragraph_text ?sp = [] \<or> int (length (paragraph_text ?sp)) < MIN_ARTICLE_LENGTH short_min_config)"
    "take 6000 (paragraph_text ?sp) = ''The budget was announced today. It is large.''"
    by code_simp+
  from C7_fetch_page [of example_get ?u short_min_config] h
  show "fetch_page example_get short_min_config ?u
       = (Some ''The budget was announced today. It is large.'', None)"
    by metis
qed

subsection \<open>Summarizer\<close>

text \<open>
  C8. \<open>summarize\<close> never raises: when the generative service is not configured, and
  whenever the call or the reading of the response raises, the result is the
  deterministic extractive summary of the same text; otherwise it is the string the
  service path produced. The deterministic summary of the empty text is the empty string.
\<close>

theorem C8_summarize:
  "(GOOGLE_API_KEY cfg = [] \<or> \<not> GEMINI_AVAILABLE cfg \<longrightarrow>
      summarize g cfg ttl text = simple_extractive_summary text 3)
   \<and> (\<forall>e. summarize_gemini g ttl text = Inl e \<longrightarrow>
         summarize g cfg ttl text = simple_extractive_summary text 3)
   \<and> (\<forall>e. g (prompt_of ttl text) = Inl e \<longrightarrow> summarize_gemini g ttl text = Inl e)
   \<and> (\<forall>resp e. g (prompt_of ttl text) = Inr resp \<and> resp_text resp = Inl e \<longrightarrow>
         summarize_gemini g ttl text = Inl e)
   \<and> (\<forall>s. summarize_gemini g ttl text = Inr s \<and> GOOGLE_API_KEY cfg \<noteq> [] \<and> GEMINI_AVAILABLE cfg \<longrightarrow>
         summarize g cfg ttl text = s)
   \<and> simple_extractive_summary [] 3 = []"
proof (intro conjI allI impI)
  assume "GOOGLE_API_KEY cfg = [] \<or> \<not> GEMINI_AVAILABLE cfg"
  then show "summarize g cfg ttl text = simple_extractive_summary text 3"
    by (auto simp: summarize_def)
next
  fix e
  assume "summarize_gemini g ttl text = Inl e"
  then show "summarize g cfg ttl text = simple_extractive_summary text 3"
    by (simp add: summarize_def)
next
  fix e
  assume "g (prompt_of ttl text) = Inl e"
  then show "summarize_gemini g ttl text = Inl e"
    by (simp add: summarize_gemini_def)
next
  fix resp e
  assume "g (prompt_of ttl text) = Inr resp \<and> resp_text resp = Inl e"
  then show "summarize_gemini g ttl text = Inl e"
    by (simp add: summarize_gemini_def)
next
  fix s
  assume "summarize_gemini g ttl text = Inr s \<and> GOOGLE_API_KEY cfg \<noteq> [] \<and> GEMINI_AVAILABLE cfg"
  then show "summarize g cfg ttl text = s"
    by (simp add: summarize_def)
next
  show "simple_extractive_summary [] 3 = []"
    by (simp add: simple_extractive_summary_def strip_def)
qed

theorem C8_summarize_witness:
  "summarize quota_exceeded default_config ''T'' ''Budget announced.''
     = simple_extractive_summary ''Budget announced.'' 3
   \<and> summarize quota_exceeded gemini_config ''T'' ''Budget announced.''
     = simple_extractive_summary ''Budget announced.'' 3
   \<and> summarize blocked_response gemini_config ''T'' ''Budget announced.''
     = simple_extractive_summary ''Budget announced.'' 3
   \<and> summarize blocked_response gemini_config ''T'' [] = []"
proof (intro conjI)
  have "\<not> GEMINI_AVAILABLE default_config"
    by code_simp
  with C8_summarize [of default_config quota_exceeded "''T''" "''Budget announced.''"]
  show "summarize quota_exceeded default_config ''T'' ''Budget announced.''
     = simple_extractive_summary ''Budget announced.'' 3"
    by blast
next
  have "quota_exceeded (prompt_of ''T'' ''Budget announced.'') = Inl (OtherException ''429 quota exceeded'')"
    by (simp add: quota_exceeded_def)
  with C8_summarize [of gemini_config quota_exceeded "''T''" "''Budget announced.''"]
  show "summarize quota_exceeded gemini_config ''T'' ''Budget announced.''
     = simple_extractive_summary ''Budget announced.'' 3"
    by blast
next
  let ?r = "\<lparr>resp_text = Inl (OtherException ''response has no valid part''), resp_str = ''<response>''\<rparr>"
  have "blocked_response (prompt_of ''T'' ''Budget announced.'') = Inr ?r
        \<and> resp_text ?r = Inl (OtherException ''response has no valid part'')"
    by (simp add: blocked_response_def)
  with C8_summarize [of gemini_config blocked_response "''T''" "''Budget announced.''"]
  show "summarize blocked_response gemini_config ''T'' ''Budget announced.''
     = simple_extractive_summary ''Budget announced.'' 3"
    by blast
next
  let ?r = "\<lparr>resp_text = Inl (OtherException ''response has no valid part''), resp_str = ''<response>''\<rparr>"
  have "blocked_response (prompt_of ''T'' []) = Inr ?r
        \<and> resp_text ?r = Inl (OtherException ''response has no valid part'')"
    by (simp add: blocked_response_def)
  with C8_summarize [of gemini_config blocked_response "''T''" "[]"]
  show "summarize blocked_response gemini_config ''T'' [] = []"
    by metis
qed

subsection \<open>Dedup Store\<close>

text \<open>
  C9. With persistence enabled and a successful write, loading what \<open>save_sent_set\<close>
  saved gives back the same set of URLs; and loading gives the empty set when the file
  is absent, when reading or parsing it raises, and when it holds a JSON value that is
  not a list.
\<close>

theorem C9_dedup_roundtrip:
  "(PERSIST_SENT cfg \<longrightarrow> load_sent_set cfg (save_sent_set cfg True sent file) = sent)
   \<and> load_sent_set cfg Absent = {||}
   \<and> load_sent_set cfg Unreadable = {||}
   \<and> load_sent_set cfg (Stored JOther) = {||}"
  by (simp add: load_sent_set_def save_sent_set_def)

theorem C9_dedup_roundtrip_witness:
  "load_sent_set default_config
     (save_sent_set default_config True {|''https://thehindu.com/b'', ''https://thehindu.com/a''|} Absent)
     = {|''https://thehindu.com/b'', ''https://thehindu.com/a''|}"
proof -
  have "PERSIST_SENT default_config"
    by code_simp
  with C9_dedup_roundtrip [of default_config "{|''https://thehindu.com/b'', ''https://thehindu.com/a''|}" Absent]
  show ?thesis by blast
qed

subsection \<open>Digest Collector\<close>

lemma collect_step_skip:
  "entry_url (snd cand) = [] \<or> entry_url (snd cand) |\<in>| sent \<Longrightarrow> collect_step w cfg sent cand st = st"
  by (auto simp: collect_step_def Let_def)

lemma collect_step_fresh:
  "fresh_state sent st \<Longrightarrow> fresh_state sent (collect_step w cfg sent cand st)"
  by (auto simp: collect_step_def fresh_state_def Let_def split: option.splits)

lemma collect_loop_fresh:
  "fresh_state sent st \<Longrightarrow> fresh_state sent (collect_loop w cfg sent n cands st)"
  by (induction cands arbitrary: st) (auto simp: collect_step_fresh)

lemma collect_run_fresh: "fresh_state (load_sent_set cfg file) (collect_run w cfg file n)"
  unfolding collect_run_def by (rule collect_loop_fresh) (simp add: fresh_state_def)

lemma collect_step_reject:
  "\<not> (accepts w cfg (snd cand) \<and> entry_url (snd cand) |\<notin>| sent) \<Longrightarrow>
     collected (collect_step w cfg sent cand st) = collected st"
  by (auto simp: collect_step_def accepts_def Let_def split: option.splits)

lemma collect_step_accept:
  "accepts w cfg (snd cand) \<Longrightarrow> entry_url (snd cand) |\<notin>| sent \<Longrightarrow>
     \<exists>it. collected (collect_step w cfg sent cand st) = collected st @ [it]
          \<and> item_url it = entry_url (snd cand)"
  by (auto simp: collect_step_def accepts_def Let_def split: option.splits)

lemma collect_step_grows:
  "\<exists>new. collected (collect_step w cfg sent cand st) = collected st @ new"
  using collect_step_reject [of w cfg cand sent st] collect_step_accept [of w cfg cand sent st]
  by (cases "accepts w cfg (snd cand) \<and> entry_url (snd cand) |\<notin>| sent") auto

lemma collect_loop_grows:
  "\<exists>new. collected (collect_loop w cfg sent n cands st) = collected st @ new"
proof (induction cands arbitrary: st)
  case Nil
  then show ?case by simp
next
  case (Cons cand cands)
  show ?case
  proof (cases "int (length (collected st)) \<ge> n")
    case True
    then show ?thesis by simp
  next
    case False
    from collect_step_grows obtain new1 where
      1: "collected (collect_step w cfg sent cand st) = collected st @ new1" by blast
    from Cons.IH obtain new2 where
      2: "collected (collect_loop w cfg sent n cands (collect_step w cfg sent cand st))
          = collected (collect_step w cfg sent cand st) @ new2" by blast
    from False 1 2 show ?thesis by simp
  qed
qed

lemma collect_loop_exhaustive:
  "int (length (collected (collect_loop w cfg sent n cands st))) < n \<Longrightarrow>
   cand \<in> set cands \<Longrightarrow> accepts w cfg (snd cand) \<Longrightarrow> entry_url (snd cand) |\<notin>| sent \<Longrightarrow>
   entry_url (snd cand) \<in> item_url ` set (collected (collect_loop w cfg sent n cands st))"
proof (induction cands arbitrary: st)
  case Nil
  then show ?case by simp
next
  case (Cons c cands)
  have open_: "\<not> int (length (collected st)) \<ge> n"
  proof
    assume "int (length (collected st)) \<ge> n"
    with Cons.prems(1) show False by simp
  qed
  let ?st = "collect_step w cfg sent c st"
  from open_ have res: "collect_loop w cfg sent n (c # cands) st = collect_loop w cfg sent n cands ?st"
    by simp
  show ?case
  proof (cases "cand = c")
    case True
    with Cons.prems collect_step_accept [of w cfg c sent st] obtain it where
      it: "collected ?st = collected st @ [it]" "item_url it = entry_url (snd cand)"
      by blast
    from collect_loop_grows [of w cfg sent n cands ?st] obtain new where
      "collected (collect_loop w cfg sent n cands ?st) = collected ?st @ new" by blast
    with it res have "it \<in> set (collected (collect_loop w cfg sent n (c # cands) st))"
      by simp
    with it(2) show ?thesis by force
  next
    case False
    with Cons.prems have "cand \<in> set cands" by simp
    with Cons.IH [of ?st] Cons.prems res show ?thesis by simp
  qed
qed

lemma collect_loop_all_rejected:
  "\<forall>cand \<in> set cands. \<not> (accepts w cfg (snd cand) \<and> entry_url (snd cand) |\<notin>| sent) \<Longrightarrow>
   collected (collect_loop w cfg sent n cands st) = collected st"
  by (induction cands arbitrary: st) (auto simp: collect_step_reject)

lemma feed_candidates_entries:
  "feedparser_parse w' = feedparser_parse w \<Longrightarrow>
   map snd (feed_candidates w' cfg feed) = map snd (feed_candidates w cfg feed)"
  by (simp add: feed_candidates_def comp_def split: sum.splits)

lemma gather_candidates_entries:
  assumes "feedparser_parse w' = feedparser_parse w"
  shows "snd ` set (gather_candidates w' cfg) = snd ` set (gather_candidates w cfg)"
proof -
  have "snd ` set (gather_candidates v cfg) = (\<Union>feed \<in> set (FEED_URLS cfg). set (map snd (feed_candidates v cfg feed)))"
    for v
    by (auto simp: gather_candidates_def)
  with assms show ?thesis
    by (simp only: feed_candidates_entries [OF assms])
qed

lemma accepts_cong:
  "requests_get w' = requests_get w \<Longrightarrow> urlparse_netloc w' = urlparse_netloc w \<Longrightarrow>
   accepts w' cfg e = accepts w cfg e"
  by (simp add: accepts_def split: option.splits)

lemma fset_fold_finsert: "fset (fold finsert xs s) = set xs \<union> fset s"
  by (induction xs arbitrary: s) auto

lemma main_sent_set:
  assumes "PERSIST_SENT cfg" "\<not> DRY_RUN cfg" "file_writable w" "main w cfg file = Inr file'"
  shows "fset (load_sent_set cfg file')
         = item_url ` set (collect_and_summarize w cfg file (MAX_ITEMS cfg)) \<union> fset (load_sent_set cfg file)"
proof (cases "collect_and_summarize w cfg file (MAX_ITEMS cfg) = []")
  case True
  with assms show ?thesis by (simp add: main_def)
next
  case False
  with assms have "file' = save_sent_set cfg True
      (fold finsert (map item_url (collect_and_summarize w cfg file (MAX_ITEMS cfg))) (load_sent_set cfg file)) file"
    by (auto simp: main_def Let_def split: sum.splits)
  with assms(1) show ?thesis
    by (simp add: load_sent_set_def save_sent_set_def fset_fold_finsert)
qed

text \<open>
  C6. A candidate whose URL is empty or already in the DedupSet loaded at the start of the
  run leaves the run state as it is: nothing is fetched, filtered or summarized for it.
  Hence every item of the returned list has a non-empty URL outside the loaded DedupSet,
  and so has every fetch, filter and summarize step of the run.
\<close>

theorem C6_skip_sent:
  "(entry_url (snd cand) = [] \<or> entry_url (snd cand) |\<in>| sent \<longrightarrow>
      collect_step w cfg sent cand st = st)
   \<and> (\<forall>it \<in> set (collect_and_summarize w cfg file n).
         item_url it \<noteq> [] \<and> item_url it |\<notin>| load_sent_set cfg file)
   \<and> (\<forall>ev \<in> set (events (collect_run w cfg file n)). \<forall>u.
         event_url ev = Some u \<longrightarrow> u \<noteq> [] \<and> u |\<notin>| load_sent_set cfg file)"
  using collect_run_fresh [of cfg "file" w n] collect_step_skip [of cand sent w cfg st]
  by (simp add: fresh_state_def collect_and_summarize_def)

theorem C6_skip_sent_witness:
  "collect_step example_world two_feed_config {|''https://thehindu.com/a''|} (200, entry_a)
       \<lparr>collected = [], events = []\<rparr>
     = \<lparr>collected = [], events = []\<rparr>
   \<and> map item_url (collect_and_summarize example_world two_feed_config
         (Stored (JList [''https://thehindu.com/a''])) 10) = [''https://thehindu.com/b'']
   \<and> events (collect_run example_world two_feed_config (Stored (JList [''https://thehindu.com/a''])) 10)
       = [Fetch ''https://thehindu.com/b'', Filter ''https://thehindu.com/b'',
          Summarize ''https://thehindu.com/b'', Sleep]
   \<and> ''https://thehindu.com/b'' |\<notin>| load_sent_set two_feed_config (Stored (JList [''https://thehindu.com/a'']))"
proof -
  let ?file = "Stored (JList [''https://thehindu.com/a''])"
  have u: "entry_url (snd (200, entry_a)) |\<in>| {|''https://thehindu.com/a''|}"
    by code_simp
  have r: "map item_url (collect_and_summarize example_world two_feed_config ?file 10)
           = [''https://thehindu.com/b'']"
    by code_simp
  have e: "events (collect_run example_world two_feed_config ?file 10)
       = [Fetch ''https://thehindu.com/b'', Filter ''https://thehindu.com/b'',
          Summarize ''https://thehindu.com/b'', Sleep]"
    by code_simp
  note c6 = C6_skip_sent [of "(200, entry_a)" "{|''https://thehindu.com/a''|}" example_world
      two_feed_config "\<lparr>collected = [], events = []\<rparr>" ?file 10]
  from c6 u have 1: "collect_step example_world two_feed_config {|''https://thehindu.com/a''|}
      (200, entry_a) \<lparr>collected = [], events = []\<rparr> = \<lparr>collected = [], events = []\<rparr>"
    by blast
  from c6 e have 2: "''https://thehindu.com/b'' |\<notin>| load_sent_set two_feed_config ?file"
    by simp
  from 1 2 r e show ?thesis by simp
qed

text \<open>
  C10. The DedupSet is not updated while the loop runs: with nothing sent before and the
  same accepted entry carried by two feeds, a single run returns two items with the same
  URL.
\<close>

theorem C10_no_intra_run_dedup:
  "load_sent_set two_feed_config Absent = {||}
   \<and> feedparser_parse example_world ''feed1'' = Inr [entry_b, entry_a]
   \<and> feedparser_parse example_world ''feed2'' = Inr [entry_a]
   \<and> map item_url (collect_and_summarize example_world two_feed_config Absent 10)
       = [''https://thehindu.com/a'', ''https://thehindu.com/a'', ''https://thehindu.com/b'']"
  by code_simp

text \<open>
  C1 (as amended). With persistence enabled, no dry run, a successful delivery and a
  successful write, a second run against unchanged feeds and pages returns no item whose
  URL the first run returned or the DedupSet already held; and the second run's list is
  empty whenever the first run returned fewer than \<open>MAX_ITEMS\<close> items.
\<close>

theorem C1_second_run:
  assumes "PERSIST_SENT cfg" and "\<not> DRY_RUN cfg" and "file_writable w"
    and "main w cfg file = Inr file'"
    and "feedparser_parse w' = feedparser_parse w"
    and "requests_get w' = requests_get w"
    and "urlparse_netloc w' = urlparse_netloc w"
  shows "(\<forall>it \<in> set (collect_and_summarize w' cfg file' (MAX_ITEMS cfg)).
            item_url it \<notin> item_url ` set (collect_and_summarize w cfg file (MAX_ITEMS cfg))
            \<and> item_url it |\<notin>| load_sent_set cfg file)
         \<and> (int (length (collect_and_summarize w cfg file (MAX_ITEMS cfg))) < MAX_ITEMS cfg \<longrightarrow>
              collect_and_summarize w' cfg file' (MAX_ITEMS cfg) = [])"
proof (intro conjI ballI impI)
  let ?n = "MAX_ITEMS cfg"
  let ?S = "load_sent_set cfg file"
  let ?S' = "load_sent_set cfg file'"
  have S': "fset ?S' = item_url ` set (collect_and_summarize w cfg file ?n) \<union> fset ?S"
    using assms(1-4) by (rule main_sent_set)
  {
    fix it
    assume "it \<in> set (collect_and_summarize w' cfg file' ?n)"
    with collect_run_fresh [of cfg file' w' ?n] have "item_url it |\<notin>| ?S'"
      by (simp add: fresh_state_def collect_and_summarize_def)
    with S' show "item_url it \<notin> item_url ` set (collect_and_summarize w cfg file ?n)"
      by blast
    from \<open>item_url it |\<notin>| ?S'\<close> S' show "item_url it |\<notin>| ?S"
      by blast
  }
  assume short: "int (length (collect_and_summarize w cfg file ?n)) < ?n"
  have "\<forall>cand \<in> set (gather_candidates w' cfg).
          \<not> (accepts w' cfg (snd cand) \<and> entry_url (snd cand) |\<notin>| ?S')"
  proof
    fix cand'
    assume c': "cand' \<in> set (gather_candidates w' cfg)"
    then have "snd cand' \<in> snd ` set (gather_candidates w cfg)"
      using gather_candidates_entries [OF assms(5), of cfg] by blast
    then obtain cand where c: "cand \<in> set (gather_candidates w cfg)" "snd cand = snd cand'"
      by force
    show "\<not> (accepts w' cfg (snd cand') \<and> entry_url (snd cand') |\<notin>| ?S')"
    proof
      assume a: "accepts w' cfg (snd cand') \<and> entry_url (snd cand') |\<notin>| ?S'"
      with c(2) accepts_cong [OF assms(6,7)] have acc: "accepts w cfg (snd cand)"
        by simp
      from a S' c(2) have new: "entry_url (snd cand) |\<notin>| ?S"
        and nin: "entry_url (snd cand) \<notin> item_url ` set (collect_and_summarize w cfg file ?n)"
        by auto
      from collect_loop_exhaustive [OF _ c(1) acc new, of ?n "\<lparr>collected = [], events = []\<rparr>"] short
      have "entry_url (snd cand) \<in> item_url ` set (collect_and_summarize w cfg file ?n)"
        by (simp add: collect_and_summarize_def collect_run_def)
      with nin show False by simp
    qed
  qed
  from collect_loop_all_rejected [OF this, of ?n "\<lparr>collected = [], events = []\<rparr>"]
  show "collect_and_summarize w' cfg file' ?n = []"
    by (simp add: collect_and_summarize_def collect_run_def)
qed

text \<open>
  The claim as first stated, that the second run is always empty, fails when the first
  run stopped at \<open>MAX_ITEMS\<close>: with a limit of one item and two acceptable entries, the
  first run delivers the first entry and the second run delivers the other.
\<close>

theorem C1_capped_run_counterexample:
  "PERSIST_SENT one_item_config \<and> \<not> DRY_RUN one_item_config
   \<and> send_email example_world one_item_config = Inr ()
   \<and> main example_world one_item_config Absent = Inr (Stored (JList [''https://thehindu.com/a'']))
   \<and> map item_url (collect_and_summarize example_world one_item_config Absent
        (MAX_ITEMS one_item_config)) = [''https://thehindu.com/a'']
   \<and> map item_url (collect_and_summarize example_world one_item_config
        (Stored (JList [''https://thehindu.com/a''])) (MAX_ITEMS one_item_config))
       = [''https://thehindu.com/b'']"
  by code_simp

theorem C1_second_run_witness:
  "main example_world two_feed_config Absent
     = Inr (Stored (JList [''https://thehindu.com/a'', ''https://thehindu.com/b'']))
   \<and> collect_and_summarize example_world two_feed_config
        (Stored (JList [''https://thehindu.com/a'', ''https://thehindu.com/b'']))
        (MAX_ITEMS two_feed_config) = []
   \<and> map item_url (collect_and_summarize example_world one_item_config
        (Stored (JList [''https://thehindu.com/a''])) (MAX_ITEMS one_item_config))
       = [''https://thehindu.com/b'']
   \<and> ''https://thehindu.com/b'' \<notin> item_url ` set (collect_and_summarize example_world
        one_item_config Absent (MAX_ITEMS one_item_config))"
proof -
  let ?ab = "Stored (JList [''https://thehindu.com/a'', ''https://thehindu.com/b''])"
  let ?a = "Stored (JList [''https://thehindu.com/a''])"
  have h2: "PERSIST_SENT two_feed_config" "\<not> DRY_RUN two_feed_config" "file_writable example_world"
    "main example_world two_feed_config Absent = Inr ?ab"
    by code_simp+
  have short: "int (length (collect_and_summarize example_world two_feed_config Absent
      (MAX_ITEMS two_feed_config))) < MAX_ITEMS two_feed_config"
    by code_simp
  from C1_second_run [OF h2 refl refl refl] short
  have 1: "collect_and_summarize example_world two_feed_config ?ab (MAX_ITEMS two_feed_config) = []"
    by blast
  have h1: "PERSIST_SENT one_item_config" "\<not> DRY_RUN one_item_config"
    "main example_world one_item_config Absent = Inr ?a"
    by code_simp+
  have r: "map item_url (collect_and_summarize example_world one_item_config ?a
        (MAX_ITEMS one_item_config)) = [''https://thehindu.com/b'']"
    by code_simp
  then obtain it where it: "it \<in> set (collect_and_summarize example_world one_item_config ?a
        (MAX_ITEMS one_item_config))" "item_url it = ''https://thehindu.com/b''"
    by (cases "collect_and_summarize example_world one_item_config ?a (MAX_ITEMS one_item_config)")
      auto
  from C1_second_run [OF h1(1,2) h2(3) h1(3) refl refl refl] it
  have 2: "''https://thehindu.com/b'' \<notin> item_url ` set (collect_and_summarize example_world
        one_item_config Absent (MAX_ITEMS one_item_config))"
    by metis
  from h2(4) 1 r 2 show ?thesis by simp
qed

end
